theory Spec2Isabelle
  imports Complex_Main "HOL-Library.Multiset"
begin

section \<open>Fleet lead scoring engine (scripts/fleet\_lead\_scorer.py)\<close>

text \<open>
  A shallow embedding of the scoring engine. Python \<open>int\<close> is \<open>int\<close>; the \<open>float\<close>
  fields (latitude, longitude, population density) are \<open>real\<close>: the code only compares
  them with constants, and a comparison of a finite float is the comparison of the number
  it denotes. Strings are \<open>string\<close>, one \<open>char\<close> per code point below 256. The one
  floating-point computation of the module, \<open>haversine_distance\<close>, is a parameter
  \<open>hav\<close> of the model that either returns a distance or raises: \<open>math.sqrt\<close> raises
  \<open>ValueError\<close> on a negative argument, and rounding can make \<open>a\<close> exceed 1 or fall
  below 0. Every result holds for whatever \<open>hav\<close> does; nothing on the path from
  \<open>score_multiple\<close> to \<open>haversine_distance\<close> catches the exception, so it is the
  outcome of each caller.
\<close>

subsection \<open>Static lookup tables\<close>

definition SALT_BELT_STATES :: "string set" where
  "SALT_BELT_STATES =
     {''CT'', ''DC'', ''DE'', ''IL'', ''IN'', ''IA'', ''KY'', ''ME'', ''MD'', ''MA'',
      ''MI'', ''MN'', ''MO'', ''NH'', ''NJ'', ''NY'', ''OH'', ''PA'', ''RI'', ''VT'',
      ''VA'', ''WV'', ''WI''}"

definition COASTAL_STATES :: "string set" where
  "COASTAL_STATES =
     {''CA'', ''OR'', ''WA'', ''TX'', ''LA'', ''MS'', ''AL'', ''FL'', ''GA'', ''SC'',
      ''NC'', ''VA'', ''MD'', ''DE'', ''NJ'', ''NY'', ''CT'', ''RI'', ''MA'', ''NH'', ''ME''}"

definition COASTAL_REFERENCE_POINTS :: "(real \<times> real) list" where
  "COASTAL_REFERENCE_POINTS =
     [(34.0522, - 118.2437), (32.7157, - 117.1611), (37.7749, - 122.4194),
      (47.6062, - 122.3321), (45.5152, - 122.6784), (25.7617, - 80.1918),
      (27.9506, - 82.4572), (29.7604, - 95.3698), (29.9511, - 90.0715),
      (40.7128, - 74.0060), (42.3601, - 71.0589), (39.2904, - 76.6122)]"

definition MOUNTAINOUS_STATES :: "string set" where
  "MOUNTAINOUS_STATES =
     {''CO'', ''WV'', ''UT'', ''NV'', ''ID'', ''MT'', ''WA'', ''OR'', ''CA'', ''AZ'', ''NM'', ''WY''}"

definition HIGH_ELEVATION_PREFIXES :: "string \<rightharpoonup> int" where
  "HIGH_ELEVATION_PREFIXES = map_of
     [(''800'', 5280), (''801'', 5500), (''802'', 6000), (''803'', 7000), (''804'', 8000),
      (''805'', 5500), (''840'', 4300), (''841'', 4500), (''871'', 5300), (''872'', 6000),
      (''891'', 4500), (''590'', 3500), (''591'', 4000), (''820'', 6000), (''821'', 6500),
      (''822'', 7000), (''831'', 4500), (''832'', 5000), (''833'', 5500)]"

definition HEAT_RISK_LATITUDE :: real where
  "HEAT_RISK_LATITUDE = 35"

definition COLD_RISK_LATITUDE :: real where
  "COLD_RISK_LATITUDE = 42"

subsection \<open>Data classes\<close>

record RiskFactors =
  corrosion :: int
  coastal :: int
  urban_wear :: int
  rural_road :: int
  terrain :: int
  heat :: int
  cold :: int

record FleetLeadScore =
  zip_code :: string
  city :: string
  state :: string
  latitude :: real
  longitude :: real
  population_density :: real
  total_severity_score :: int
  risk_factors :: RiskFactors
  primary_risk :: string
  secondary_risks :: "string list"
  risk_bucket :: string
  recommended_upsell :: "string list"
  lead_priority :: string

text \<open>The dictionary \<open>get_zip_data\<close> returns, with its five keys.\<close>

record zip_data =
  zd_city :: string
  zd_state :: string
  zd_lat :: real
  zd_lon :: real
  zd_pop_density :: real

subsection \<open>Helper functions\<close>

datatype error = ValueError

text \<open>\<open>haversine_distance\<close>: the distance in miles, or the exception of \<open>math.sqrt\<close>.\<close>

type_synonym haversine = "real \<Rightarrow> real \<Rightarrow> real \<Rightarrow> real \<Rightarrow> error + real"

text \<open>
  \<open>get_nearest_coast_distance\<close> starts the running minimum at \<open>float('inf')\<close>, here
  \<open>None\<close>, and takes \<open>min\<close> with the distance to each reference point in turn; a
  call of \<open>haversine_distance\<close> that raises ends the loop with the exception.
\<close>

fun min_distance_step :: "real option \<Rightarrow> real \<Rightarrow> real option" where
  "min_distance_step None d = Some d"
| "min_distance_step (Some m) d = Some (min m d)"

fun nearest_coast_loop ::
  "haversine \<Rightarrow> real \<Rightarrow> real \<Rightarrow> real option \<Rightarrow> (real \<times> real) list \<Rightarrow> error + real option" where
  "nearest_coast_loop hav lat lon min_distance [] = Inr min_distance"
| "nearest_coast_loop hav lat lon min_distance ((coast_lat, coast_lon) # rest) =
     (case hav lat lon coast_lat coast_lon of
        Inl e \<Rightarrow> Inl e
      | Inr d \<Rightarrow> nearest_coast_loop hav lat lon (min_distance_step min_distance d) rest)"

definition get_nearest_coast_distance :: "haversine \<Rightarrow> real \<Rightarrow> real \<Rightarrow> error + real option" where
  "get_nearest_coast_distance hav lat lon =
     nearest_coast_loop hav lat lon None COASTAL_REFERENCE_POINTS"

definition state_elevations :: "string \<rightharpoonup> int" where
  "state_elevations = map_of
     [(''CO'', 5500), (''UT'', 4500), (''WY'', 5500), (''NM'', 5000), (''NV'', 4000),
      (''AZ'', 3500), (''ID'', 4000), (''MT'', 3500), (''WA'', 1500), (''OR'', 1500),
      (''CA'', 1000), (''WV'', 1500)]"

definition get_elevation_estimate :: "string \<Rightarrow> string \<Rightarrow> int" where
  "get_elevation_estimate zc st =
     (let prefix = take 3 zc in
      case HIGH_ELEVATION_PREFIXES prefix of
        Some e \<Rightarrow> e
      | None \<Rightarrow> (case state_elevations st of Some e \<Rightarrow> e | None \<Rightarrow> 500))"

subsection \<open>Mock data\<close>

definition MOCK_ZIP_DATA :: "string \<rightharpoonup> zip_data" where
  "MOCK_ZIP_DATA = map_of
     [(''60601'', \<lparr>zd_city = ''Chicago'', zd_state = ''IL'', zd_lat = 41.8819, zd_lon = - 87.6278, zd_pop_density = 12000\<rparr>),
      (''10001'', \<lparr>zd_city = ''New York'', zd_state = ''NY'', zd_lat = 40.7484, zd_lon = - 73.9967, zd_pop_density = 27000\<rparr>),
      (''90210'', \<lparr>zd_city = ''Beverly Hills'', zd_state = ''CA'', zd_lat = 34.0901, zd_lon = - 118.4065, zd_pop_density = 5200\<rparr>),
      (''80202'', \<lparr>zd_city = ''Denver'', zd_state = ''CO'', zd_lat = 39.7541, zd_lon = - 104.9927, zd_pop_density = 4500\<rparr>),
      (''98101'', \<lparr>zd_city = ''Seattle'', zd_state = ''WA'', zd_lat = 47.6097, zd_lon = - 122.3331, zd_pop_density = 8500\<rparr>),
      (''33101'', \<lparr>zd_city = ''Miami'', zd_state = ''FL'', zd_lat = 25.7617, zd_lon = - 80.1918, zd_pop_density = 11000\<rparr>),
      (''48201'', \<lparr>zd_city = ''Detroit'', zd_state = ''MI'', zd_lat = 42.3314, zd_lon = - 83.0458, zd_pop_density = 5000\<rparr>),
      (''02101'', \<lparr>zd_city = ''Boston'', zd_state = ''MA'', zd_lat = 42.3601, zd_lon = - 71.0589, zd_pop_density = 13000\<rparr>),
      (''75201'', \<lparr>zd_city = ''Dallas'', zd_state = ''TX'', zd_lat = 32.7767, zd_lon = - 96.7970, zd_pop_density = 3500\<rparr>),
      (''85001'', \<lparr>zd_city = ''Phoenix'', zd_state = ''AZ'', zd_lat = 33.4484, zd_lon = - 112.0740, zd_pop_density = 3000\<rparr>),
      (''55401'', \<lparr>zd_city = ''Minneapolis'', zd_state = ''MN'', zd_lat = 44.9778, zd_lon = - 93.2650, zd_pop_density = 7000\<rparr>),
      (''84101'', \<lparr>zd_city = ''Salt Lake City'', zd_state = ''UT'', zd_lat = 40.7608, zd_lon = - 111.8910, zd_pop_density = 3200\<rparr>),
      (''15201'', \<lparr>zd_city = ''Pittsburgh'', zd_state = ''PA'', zd_lat = 40.4406, zd_lon = - 79.9959, zd_pop_density = 5500\<rparr>),
      (''44101'', \<lparr>zd_city = ''Cleveland'', zd_state = ''OH'', zd_lat = 41.4993, zd_lon = - 81.6944, zd_pop_density = 4800\<rparr>),
      (''14201'', \<lparr>zd_city = ''Buffalo'', zd_state = ''NY'', zd_lat = 42.8864, zd_lon = - 78.8784, zd_pop_density = 6500\<rparr>)]"

subsection \<open>The zip code lookup\<close>

text \<open>
  The \<open>uszipcode\<close> search engine is outside the module. A call of \<open>by_zipcode\<close> either
  raises or returns a result (\<open>None\<close>, or an object whose fields may each be missing);
  \<open>self.search\<close> is \<open>None\<close> when the package is absent or its start-up failed.
\<close>

datatype 'a outcome = Raises | Returns 'a

record simple_zipcode =
  sz_zipcode :: "string option"
  sz_major_city :: "string option"
  sz_post_office_city :: "string option"
  sz_state :: "string option"
  sz_lat :: "real option"
  sz_lng :: "real option"
  sz_population_density :: "real option"

type_synonym search_engine = "string \<Rightarrow> simple_zipcode option outcome"

text \<open>Python's \<open>x or d\<close> on an optional string and on an optional number.\<close>

definition or_str :: "string option \<Rightarrow> string \<Rightarrow> string" where
  "or_str x d = (case x of None \<Rightarrow> d | Some s \<Rightarrow> if s = [] then d else s)"

definition or_num :: "real option \<Rightarrow> real \<Rightarrow> real" where
  "or_num x d = (case x of None \<Rightarrow> d | Some v \<Rightarrow> if v = 0 then d else v)"

definition get_zip_data :: "search_engine option \<Rightarrow> string \<Rightarrow> zip_data option" where
  "get_zip_data search zc =
     (let found =
        (case search of
           None \<Rightarrow> None
         | Some by_zipcode \<Rightarrow>
             (case by_zipcode zc of
                Raises \<Rightarrow> None
              | Returns None \<Rightarrow> None
              | Returns (Some result) \<Rightarrow>
                  (if or_str (sz_zipcode result) [] \<noteq> [] then
                     Some \<lparr>zd_city = or_str (sz_major_city result)
                                       (or_str (sz_post_office_city result) ''Unknown''),
                           zd_state = or_str (sz_state result) ''Unknown'',
                           zd_lat = or_num (sz_lat result) 0,
                           zd_lon = or_num (sz_lng result) 0,
                           zd_pop_density = or_num (sz_population_density result) 0\<rparr>
                   else None)))
      in case found of
           Some d \<Rightarrow> Some d
         | None \<Rightarrow> MOCK_ZIP_DATA zc)"

subsection \<open>The heuristics\<close>

definition calculate_corrosion_score ::
  "haversine \<Rightarrow> string \<Rightarrow> real \<Rightarrow> real \<Rightarrow> error + int \<times> int" where
  "calculate_corrosion_score hav st lat lon =
     (let salt_score = (if st \<in> SALT_BELT_STATES then 30 else 0)
      in if st \<in> COASTAL_STATES then
           (case get_nearest_coast_distance hav lat lon of
              Inl e \<Rightarrow> Inl e
            | Inr None \<Rightarrow> Inr (salt_score, 0)
            | Inr (Some distance_to_coast) \<Rightarrow>
                Inr (salt_score,
                     if distance_to_coast < 20 then 15
                     else if distance_to_coast < 50 then 8
                     else 0))
         else Inr (salt_score, 0))"

definition calculate_density_score :: "real \<Rightarrow> int \<times> int" where
  "calculate_density_score pop_density =
     (if pop_density > 10000 then (30, 0)
      else if pop_density > 5000 then (25, 0)
      else if pop_density > 2000 then (15, 0)
      else if pop_density < 500 then (0, 10)
      else if pop_density < 100 then (0, 15)
      else (0, 0))"

definition calculate_terrain_score :: "string \<Rightarrow> string \<Rightarrow> int" where
  "calculate_terrain_score zc st =
     (if st \<notin> MOUNTAINOUS_STATES then 0
      else
        (let elevation = get_elevation_estimate zc st in
         if elevation > 7000 then 25
         else if elevation > 5000 then 20
         else if elevation > 3000 then 12
         else if elevation > 2000 then 8
         else 0))"

definition calculate_thermal_score :: "real \<Rightarrow> int \<times> int" where
  "calculate_thermal_score lat =
     (let heat_score = (if lat < 30 then 20 else if lat < HEAT_RISK_LATITUDE then 12 else 0);
          cold_score = (if lat > 45 then 20 else if lat > COLD_RISK_LATITUDE then 12 else 0)
      in (heat_score, cold_score))"

subsection \<open>Classification\<close>

definition determine_risk_bucket :: "RiskFactors \<Rightarrow> string" where
  "determine_risk_bucket factors =
     (let corrosion_total = corrosion factors + coastal factors;
          urban_total = urban_wear factors;
          terrain_total = terrain factors;
          thermal_total = heat factors + cold factors;
          max_score = max (max (max corrosion_total urban_total) terrain_total) thermal_total
      in if max_score = corrosion_total \<and> corrosion_total \<ge> 25 then ''salt_belt''
         else if max_score = terrain_total \<and> terrain_total \<ge> 15 then ''transmission_cooker''
         else if max_score = urban_total \<and> urban_total \<ge> 20 then ''city_grinder''
         else if max_score = thermal_total \<and> thermal_total \<ge> 15 then ''thermal_stress''
         else ''general'')"

text \<open>\<open>if cond: upsells.extend(items)\<close>\<close>

definition extend_if :: "bool \<Rightarrow> string list \<Rightarrow> string list \<Rightarrow> string list" where
  "extend_if c items upsells = (if c then upsells @ items else upsells)"

text \<open>The loop that removes duplicates, with its two variables \<open>seen\<close> and \<open>unique\<close>.\<close>

fun dedupe_loop :: "string list \<Rightarrow> string set \<Rightarrow> string list \<Rightarrow> string list" where
  "dedupe_loop [] seen unique = unique"
| "dedupe_loop (item # rest) seen unique =
     (if item \<notin> seen then dedupe_loop rest (insert item seen) (unique @ [item])
      else dedupe_loop rest seen unique)"

definition get_recommended_upsells :: "RiskFactors \<Rightarrow> string \<Rightarrow> string list" where
  "get_recommended_upsells factors bucket =
     (let upsells = [];
          upsells = extend_if (corrosion factors \<ge> 25)
            [''Undercoating'', ''Brake Line Inspection'', ''Caliper Check''] upsells;
          upsells = extend_if (coastal factors \<ge> 10)
            [''Rust Proofing'', ''Marine Grade Lubricants''] upsells;
          upsells = extend_if (urban_wear factors \<ge> 20)
            [''Brake Rotors'', ''Starter System Check'', ''Door Hinge Lube''] upsells;
          upsells = extend_if (rural_road factors \<ge> 10)
            [''Suspension Inspection'', ''Alignment Check'', ''Skid Plate''] upsells;
          upsells = extend_if (terrain factors \<ge> 15)
            [''Transmission Flush'', ''Coolant Check'', ''Brake Fluid Flush''] upsells;
          upsells = extend_if (heat factors \<ge> 12)
            [''Battery Load Test'', ''AC System Check'', ''Rubber Bushing Inspection''] upsells;
          upsells = extend_if (cold factors \<ge> 12)
            [''Block Heater'', ''Battery Replacement'', ''Alternator Test''] upsells;
          unique = dedupe_loop upsells {} []
      in take 6 unique)"

text \<open>
  \<open>list.sort(key=..., reverse=True)\<close>: Python's sort is stable, and with \<open>reverse\<close>
  elements of equal key keep their original order. It is modelled by the stable
  insertion sort of the library on the negated key.
\<close>

definition sort_reverse :: "('a \<Rightarrow> int) \<Rightarrow> 'a list \<Rightarrow> 'a list" where
  "sort_reverse key xs = sort_key (\<lambda>x. - key x) xs"

definition risk_scores :: "RiskFactors \<Rightarrow> (int \<times> string) list" where
  "risk_scores factors =
     [(corrosion factors + coastal factors, ''Corrosion''),
      (urban_wear factors, ''Stop-and-Go Wear''),
      (terrain factors, ''Terrain Stress''),
      (heat factors, ''Heat Stress''),
      (cold factors, ''Cold Start Risk''),
      (rural_road factors, ''Rural Road Wear'')]"

text \<open>The list \<open>risk_scores\<close> after \<open>risk_scores.sort(key=lambda x: x[0], reverse=True)\<close>.\<close>

definition sorted_risk_scores :: "RiskFactors \<Rightarrow> (int \<times> string) list" where
  "sorted_risk_scores factors = sort_reverse fst (risk_scores factors)"

definition get_primary_risk :: "RiskFactors \<Rightarrow> string \<times> string list" where
  "get_primary_risk factors =
     (let rs = sorted_risk_scores factors;
          primary = (if fst (rs ! 0) > 0 then snd (rs ! 0) else ''Low Risk'');
          secondary = map snd (filter (\<lambda>r. fst r \<ge> 5) (take 2 (drop 1 rs)))
      in (primary, secondary))"

subsection \<open>Scoring one zip code and a batch\<close>

text \<open>
  \<open>score_zip\<close> returns \<open>None\<close>, returns a record, or ends with the exception of
  \<open>calculate_corrosion_score\<close>, its only call that can raise.
\<close>

definition score_zip ::
  "search_engine option \<Rightarrow> haversine \<Rightarrow> string \<Rightarrow> error + FleetLeadScore option" where
  "score_zip search hav zc =
     (case get_zip_data search zc of
        None \<Rightarrow> Inr None
      | Some zd \<Rightarrow>
          (let cty = zd_city zd;
               st = zd_state zd;
               lat = zd_lat zd;
               lon = zd_lon zd;
               pop_density = zd_pop_density zd
           in case calculate_corrosion_score hav st lat lon of
                Inl e \<Rightarrow> Inl e
              | Inr (corrosion_s, coastal_s) \<Rightarrow>
          (let (urban, rural) = calculate_density_score pop_density;
               terrain_s = calculate_terrain_score zc st;
               (heat_s, cold_s) = calculate_thermal_score lat;
               factors = \<lparr>corrosion = corrosion_s, coastal = coastal_s, urban_wear = urban,
                          rural_road = rural, terrain = terrain_s, heat = heat_s, cold = cold_s\<rparr>;
               total = min 100 (corrosion_s + coastal_s + urban + rural + terrain_s + heat_s + cold_s);
               bucket = determine_risk_bucket factors;
               (primary, secondary) = get_primary_risk factors;
               upsells = get_recommended_upsells factors bucket;
               priority = (if total \<ge> 60 then ''hot'' else if total \<ge> 35 then ''warm'' else ''cold'')
           in Inr (Some \<lparr>zip_code = zc, city = cty, state = st, latitude = lat,
                     longitude = lon, population_density = pop_density,
                     total_severity_score = total, risk_factors = factors,
                     primary_risk = primary, secondary_risks = secondary,
                     risk_bucket = bucket, recommended_upsell = upsells,
                     lead_priority = priority\<rparr>))))"

text \<open>
  \<open>str.strip()\<close> removes the white space at both ends; these are the code points below
  256 that Python counts as white space.
\<close>

definition py_isspace :: "char \<Rightarrow> bool" where
  "py_isspace c = (of_char c \<in> {9, 10, 11, 12, 13, 28, 29, 30, 31, 32, 133, 160 :: nat})"

definition strip :: "string \<Rightarrow> string" where
  "strip s = rev (dropWhile py_isspace (rev (dropWhile py_isspace s)))"

text \<open>
  The loop of \<open>score_multiple\<close> over the zip codes, with its list \<open>results\<close>; a
  \<open>score_zip\<close> that raises ends it with the exception.
\<close>

fun score_loop ::
  "search_engine option \<Rightarrow> haversine \<Rightarrow> FleetLeadScore list \<Rightarrow> string list
     \<Rightarrow> error + FleetLeadScore list" where
  "score_loop search hav results [] = Inr results"
| "score_loop search hav results (zc # rest) =
     (case score_zip search hav (strip zc) of
        Inl e \<Rightarrow> Inl e
      | Inr None \<Rightarrow> score_loop search hav results rest
      | Inr (Some score) \<Rightarrow> score_loop search hav (results @ [score]) rest)"

definition score_multiple ::
  "search_engine option \<Rightarrow> haversine \<Rightarrow> string list \<Rightarrow> error + FleetLeadScore list" where
  "score_multiple search hav zip_codes =
     (case score_loop search hav [] zip_codes of
        Inl e \<Rightarrow> Inl e
      | Inr results \<Rightarrow> Inr (sort_reverse total_severity_score results))"

text \<open>The record \<open>score_zip\<close> returns for a code of the batch, when it returns one.\<close>

abbreviation scored :: "search_engine option \<Rightarrow> haversine \<Rightarrow> string \<Rightarrow> FleetLeadScore option" where
  "scored search hav zc \<equiv> (case score_zip search hav (strip zc) of Inl e \<Rightarrow> None | Inr r \<Rightarrow> r)"

subsection \<open>The specification's wording, for comparison\<close>

text \<open>
  The risk bucket as the specification words it: the maximum of the four grouped totals,
  then the fixed priority order corrosion, terrain, urban, thermal, each with its floor.
\<close>

definition risk_bucket_spec :: "RiskFactors \<Rightarrow> string" where
  "risk_bucket_spec f =
     (let corrosion_total = corrosion f + coastal f;
          urban_total = urban_wear f;
          terrain_total = terrain f;
          thermal_total = heat f + cold f;
          max_score = Max {corrosion_total, urban_total, terrain_total, thermal_total}
      in if corrosion_total = max_score \<and> 25 \<le> corrosion_total then ''salt_belt''
         else if terrain_total = max_score \<and> 15 \<le> terrain_total then ''transmission_cooker''
         else if urban_total = max_score \<and> 20 \<le> urban_total then ''city_grinder''
         else if thermal_total = max_score \<and> 15 \<le> thermal_total then ''thermal_stress''
         else ''general'')"

text \<open>The order of the three priority tiers: cold below warm below hot.\<close>

definition priority_rank :: "string \<Rightarrow> nat" where
  "priority_rank p = (if p = ''hot'' then 2 else if p = ''warm'' then 1 else 0)"

text \<open>
  The upsell rules as the specification words them: an ordered list of a threshold
  condition on one sub-score and the items it triggers.
\<close>

definition upsell_rules :: "((RiskFactors \<Rightarrow> bool) \<times> string list) list" where
  "upsell_rules =
     [(\<lambda>f. 25 \<le> corrosion f, [''Undercoating'', ''Brake Line Inspection'', ''Caliper Check'']),
      (\<lambda>f. 10 \<le> coastal f, [''Rust Proofing'', ''Marine Grade Lubricants'']),
      (\<lambda>f. 20 \<le> urban_wear f, [''Brake Rotors'', ''Starter System Check'', ''Door Hinge Lube'']),
      (\<lambda>f. 10 \<le> rural_road f, [''Suspension Inspection'', ''Alignment Check'', ''Skid Plate'']),
      (\<lambda>f. 15 \<le> terrain f, [''Transmission Flush'', ''Coolant Check'', ''Brake Fluid Flush'']),
      (\<lambda>f. 12 \<le> heat f, [''Battery Load Test'', ''AC System Check'', ''Rubber Bushing Inspection'']),
      (\<lambda>f. 12 \<le> cold f, [''Block Heater'', ''Battery Replacement'', ''Alternator Test''])]"

definition triggered_items :: "RiskFactors \<Rightarrow> string list" where
  "triggered_items f = concat (map snd (filter (\<lambda>rule. fst rule f) upsell_rules))"

text \<open>Removing duplicates, each element kept where it is first seen.\<close>

fun dedupe_first :: "'a list \<Rightarrow> 'a list" where
  "dedupe_first [] = []"
| "dedupe_first (x # xs) = x # filter (\<lambda>y. y \<noteq> x) (dedupe_first xs)"

section \<open>Properties\<close>

subsection \<open>The ranges of the heuristics\<close>

lemma corrosion_score_range:
  assumes "calculate_corrosion_score hav st lat lon = Inr (salt_score, coastal_score)"
  shows "salt_score \<in> {0, 30}" and "coastal_score \<in> {0, 8, 15}"
  using assms
  by (auto simp: calculate_corrosion_score_def Let_def split: if_splits sum.splits option.splits)

lemma corrosion_score_inland:
  assumes "st \<notin> COASTAL_STATES"
  shows "calculate_corrosion_score hav st lat lon
           = Inr (if st \<in> SALT_BELT_STATES then 30 else 0, 0)"
  using assms by (simp add: calculate_corrosion_score_def)

lemma density_score_range:
  "calculate_density_score p \<in> {(30, 0), (25, 0), (15, 0), (0, 10), (0, 0)}"
  by (simp add: calculate_density_score_def)

lemma terrain_score_range:
  "calculate_terrain_score zc st \<in> {0, 8, 12, 20, 25}"
  by (simp add: calculate_terrain_score_def Let_def)

lemma thermal_score_heat:
  "fst (calculate_thermal_score lat) = (if lat < 30 then 20 else if lat < 35 then 12 else 0)"
  by (simp add: calculate_thermal_score_def HEAT_RISK_LATITUDE_def Let_def)

lemma thermal_score_cold:
  "snd (calculate_thermal_score lat) = (if lat > 45 then 20 else if lat > 42 then 12 else 0)"
  by (simp add: calculate_thermal_score_def COLD_RISK_LATITUDE_def Let_def)

subsection \<open>The record that \<open>score_zip\<close> builds\<close>

lemma score_zip_None_iff:
  "score_zip search hav zc = Inr None \<longleftrightarrow> get_zip_data search zc = None"
  by (simp add: score_zip_def Let_def split: option.split sum.split prod.split)

lemma score_zip_resolved:
  assumes "score_zip search hav zc = Inr (Some r)"
  shows "\<exists>zd. get_zip_data search zc = Some zd"
  using assms by (cases "get_zip_data search zc") (simp_all add: score_zip_def)

lemma score_zip_returns:
  assumes "get_zip_data search zc = Some zd"
    and "calculate_corrosion_score hav (zd_state zd) (zd_lat zd) (zd_lon zd) = Inr p"
  shows "\<exists>r. score_zip search hav zc = Inr (Some r)"
  using assms by (cases p) (simp add: score_zip_def Let_def split: prod.split)

lemma score_zip_raises_iff:
  "score_zip search hav zc = Inl e \<longleftrightarrow>
     (\<exists>zd. get_zip_data search zc = Some zd
          \<and> calculate_corrosion_score hav (zd_state zd) (zd_lat zd) (zd_lon zd) = Inl e)"
  by (simp add: score_zip_def Let_def split: option.split sum.split prod.split)

lemma score_zip_fields:
  assumes "score_zip search hav zc = Inr (Some r)" and "get_zip_data search zc = Some zd"
  shows "zip_code r = zc"
    and "latitude r = zd_lat zd"
    and "calculate_corrosion_score hav (zd_state zd) (zd_lat zd) (zd_lon zd)
           = Inr (corrosion (risk_factors r), coastal (risk_factors r))"
    and "urban_wear (risk_factors r) = fst (calculate_density_score (zd_pop_density zd))"
    and "rural_road (risk_factors r) = snd (calculate_density_score (zd_pop_density zd))"
    and "terrain (risk_factors r) = calculate_terrain_score zc (zd_state zd)"
    and "heat (risk_factors r) = fst (calculate_thermal_score (zd_lat zd))"
    and "cold (risk_factors r) = snd (calculate_thermal_score (zd_lat zd))"
    and "total_severity_score r =
       min 100 (corrosion (risk_factors r) + coastal (risk_factors r) + urban_wear (risk_factors r)
                + rural_road (risk_factors r) + terrain (risk_factors r) + heat (risk_factors r)
                + cold (risk_factors r))"
    and "lead_priority r =
       (if total_severity_score r \<ge> 60 then ''hot''
        else if total_severity_score r \<ge> 35 then ''warm'' else ''cold'')"
    and "risk_bucket r = determine_risk_bucket (risk_factors r)"
    and "primary_risk r = fst (get_primary_risk (risk_factors r))"
    and "secondary_risks r = snd (get_primary_risk (risk_factors r))"
    and "recommended_upsell r = get_recommended_upsells (risk_factors r) (risk_bucket r)"
proof -
  from assms obtain a b where
    c: "calculate_corrosion_score hav (zd_state zd) (zd_lat zd) (zd_lon zd) = Inr (a, b)"
    by (cases "calculate_corrosion_score hav (zd_state zd) (zd_lat zd) (zd_lon zd)")
       (auto simp: score_zip_def)
  from assms have "r = the (projr (score_zip search hav zc))" by simp
  with assms(2) c show
    "zip_code r = zc"
    "latitude r = zd_lat zd"
    "calculate_corrosion_score hav (zd_state zd) (zd_lat zd) (zd_lon zd)
           = Inr (corrosion (risk_factors r), coastal (risk_factors r))"
    "urban_wear (risk_factors r) = fst (calculate_density_score (zd_pop_density zd))"
    "rural_road (risk_factors r) = snd (calculate_density_score (zd_pop_density zd))"
    "terrain (risk_factors r) = calculate_terrain_score zc (zd_state zd)"
    "heat (risk_factors r) = fst (calculate_thermal_score (zd_lat zd))"
    "cold (risk_factors r) = snd (calculate_thermal_score (zd_lat zd))"
    "total_severity_score r =
       min 100 (corrosion (risk_factors r) + coastal (risk_factors r) + urban_wear (risk_factors r)
                + rural_road (risk_factors r) + terrain (risk_factors r) + heat (risk_factors r)
                + cold (risk_factors r))"
    "lead_priority r =
       (if total_severity_score r \<ge> 60 then ''hot''
        else if total_severity_score r \<ge> 35 then ''warm'' else ''cold'')"
    "risk_bucket r = determine_risk_bucket (risk_factors r)"
    "primary_risk r = fst (get_primary_risk (risk_factors r))"
    "secondary_risks r = snd (get_primary_risk (risk_factors r))"
    "recommended_upsell r = get_recommended_upsells (risk_factors r) (risk_bucket r)"
    by (simp_all add: score_zip_def Let_def split: prod.split)
qed

lemma sub_scores_bounded:
  assumes "score_zip search hav zc = Inr (Some r)"
  shows "corrosion (risk_factors r) \<in> {0, 30}"
    and "coastal (risk_factors r) \<in> {0, 8, 15}"
    and "(urban_wear (risk_factors r), rural_road (risk_factors r))
           \<in> {(30, 0), (25, 0), (15, 0), (0, 10), (0, 0)}"
    and "terrain (risk_factors r) \<in> {0, 8, 12, 20, 25}"
    and "heat (risk_factors r) \<in> {0, 12, 20}"
    and "cold (risk_factors r) \<in> {0, 12, 20}"
proof -
  from assms obtain zd where zd: "get_zip_data search zc = Some zd"
    using score_zip_resolved by blast
  note f = score_zip_fields[OF assms zd]
  show "corrosion (risk_factors r) \<in> {0, 30}"
    by (rule corrosion_score_range(1)[OF f(3)])
  show "coastal (risk_factors r) \<in> {0, 8, 15}"
    by (rule corrosion_score_range(2)[OF f(3)])
  show "(urban_wear (risk_factors r), rural_road (risk_factors r))
           \<in> {(30, 0), (25, 0), (15, 0), (0, 10), (0, 0)}"
    unfolding f(4) f(5) using density_score_range[of "zd_pop_density zd"] by simp
  show "terrain (risk_factors r) \<in> {0, 8, 12, 20, 25}"
    unfolding f(6) by (rule terrain_score_range)
  show "heat (risk_factors r) \<in> {0, 12, 20}"
    unfolding f(7) thermal_score_heat by simp
  show "cold (risk_factors r) \<in> {0, 12, 20}"
    unfolding f(8) thermal_score_cold by simp
qed

lemma sub_scores_bounds:
  assumes "score_zip search hav zc = Inr (Some r)"
  shows "0 \<le> corrosion (risk_factors r) \<and> corrosion (risk_factors r) \<le> 30"
    and "0 \<le> coastal (risk_factors r) \<and> coastal (risk_factors r) \<le> 15"
    and "0 \<le> urban_wear (risk_factors r) \<and> urban_wear (risk_factors r) \<le> 30"
    and "0 \<le> rural_road (risk_factors r) \<and> rural_road (risk_factors r) \<le> 15"
    and "0 \<le> terrain (risk_factors r) \<and> terrain (risk_factors r) \<le> 25"
    and "0 \<le> heat (risk_factors r) \<and> heat (risk_factors r) \<le> 20"
    and "0 \<le> cold (risk_factors r) \<and> cold (risk_factors r) \<le> 20"
proof -
  show "0 \<le> corrosion (risk_factors r) \<and> corrosion (risk_factors r) \<le> 30"
    using sub_scores_bounded(1)[OF assms] by auto
  show "0 \<le> coastal (risk_factors r) \<and> coastal (risk_factors r) \<le> 15"
    using sub_scores_bounded(2)[OF assms] by auto
  show "0 \<le> urban_wear (risk_factors r) \<and> urban_wear (risk_factors r) \<le> 30"
    using sub_scores_bounded(3)[OF assms] by auto
  show "0 \<le> rural_road (risk_factors r) \<and> rural_road (risk_factors r) \<le> 15"
    using sub_scores_bounded(3)[OF assms] by auto
  show "0 \<le> terrain (risk_factors r) \<and> terrain (risk_factors r) \<le> 25"
    using sub_scores_bounded(4)[OF assms] by auto
  show "0 \<le> heat (risk_factors r) \<and> heat (risk_factors r) \<le> 20"
    using sub_scores_bounded(5)[OF assms] by auto
  show "0 \<le> cold (risk_factors r) \<and> cold (risk_factors r) \<le> 20"
    using sub_scores_bounded(6)[OF assms] by auto
qed

subsection \<open>A worked input: Chicago, 60601, from the mock table\<close>

lemma score_zip_chicago:
  "score_zip None hav ''60601'' =
     Inr (Some \<lparr>zip_code = ''60601'', city = ''Chicago'', state = ''IL'', latitude = 41.8819,
            longitude = - 87.6278, population_density = 12000, total_severity_score = 60,
            risk_factors = \<lparr>corrosion = 30, coastal = 0, urban_wear = 30, rural_road = 0,
                             terrain = 0, heat = 0, cold = 0\<rparr>,
            primary_risk = ''Corrosion'', secondary_risks = [''Stop-and-Go Wear''],
            risk_bucket = ''salt_belt'',
            recommended_upsell = [''Undercoating'', ''Brake Line Inspection'', ''Caliper Check'',
                                  ''Brake Rotors'', ''Starter System Check'', ''Door Hinge Lube''],
            lead_priority = ''hot''\<rparr>)"
proof -
  have zd: "get_zip_data None ''60601'' =
     Some \<lparr>zd_city = ''Chicago'', zd_state = ''IL'', zd_lat = 41.8819, zd_lon = - 87.6278,
            zd_pop_density = 12000\<rparr>"
    by (simp add: get_zip_data_def MOCK_ZIP_DATA_def)
  have c: "calculate_corrosion_score hav ''IL'' la lo = Inr (30, 0)" for la lo
    by (simp add: calculate_corrosion_score_def SALT_BELT_STATES_def COASTAL_STATES_def)
  have d: "calculate_density_score 12000 = (30, 0)"
    by (simp add: calculate_density_score_def)
  have t: "calculate_terrain_score zc ''IL'' = 0" for zc
    by (simp add: calculate_terrain_score_def MOUNTAINOUS_STATES_def)
  have b: "determine_risk_bucket \<lparr>corrosion = 30, coastal = 0, urban_wear = 30,
      rural_road = 0, terrain = 0, heat = 0, cold = 0\<rparr> = ''salt_belt''"
    by (simp add: determine_risk_bucket_def)
  have p: "get_primary_risk \<lparr>corrosion = 30, coastal = 0, urban_wear = 30,
      rural_road = 0, terrain = 0, heat = 0, cold = 0\<rparr> = (''Corrosion'', [''Stop-and-Go Wear''])"
    by (simp add: get_primary_risk_def sorted_risk_scores_def risk_scores_def sort_reverse_def)
  have u: "get_recommended_upsells \<lparr>corrosion = 30, coastal = 0, urban_wear = 30,
      rural_road = 0, terrain = 0, heat = 0, cold = 0\<rparr> bk =
      [''Undercoating'', ''Brake Line Inspection'', ''Caliper Check'',
       ''Brake Rotors'', ''Starter System Check'', ''Door Hinge Lube'']" for bk
    by (simp add: get_recommended_upsells_def extend_if_def)
  show ?thesis
    by (simp add: score_zip_def zd c d t b p u calculate_thermal_score_def
        HEAT_RISK_LATITUDE_def COLD_RISK_LATITUDE_def)
qed

subsection \<open>Total severity\<close>

text \<open>
  Claim C1. For every zip code that resolves, the \<open>total_severity_score\<close> of the record
  \<open>score_zip\<close> returns is the sum of the seven sub-scores capped at 100, and lies
  between 0 and 100.
\<close>

theorem total_severity_score_capped:
  assumes "score_zip search hav zc = Inr (Some r)"
  shows "total_severity_score r =
           min 100 (corrosion (risk_factors r) + coastal (risk_factors r)
                    + urban_wear (risk_factors r) + rural_road (risk_factors r)
                    + terrain (risk_factors r) + heat (risk_factors r) + cold (risk_factors r))
         \<and> 0 \<le> total_severity_score r \<and> total_severity_score r \<le> 100"
proof -
  from assms obtain zd where zd: "get_zip_data search zc = Some zd"
    using score_zip_resolved by blast
  note tot = score_zip_fields(9)[OF assms zd]
  note b = sub_scores_bounds[OF assms]
  have "0 \<le> corrosion (risk_factors r) + coastal (risk_factors r)
                    + urban_wear (risk_factors r) + rural_road (risk_factors r)
                    + terrain (risk_factors r) + heat (risk_factors r) + cold (risk_factors r)"
    using b(1) b(2) b(3) b(4) b(5) b(6) b(7) by linarith
  then have "0 \<le> total_severity_score r" unfolding tot by simp
  moreover have "total_severity_score r \<le> 100" unfolding tot by simp
  ultimately show ?thesis using tot by blast
qed

theorem total_severity_score_capped_witness:
  "\<exists>r. score_zip None (\<lambda>_ _ _ _. Inr 0) ''60601'' = Inr (Some r) \<and> total_severity_score r = 60
       \<and> total_severity_score r = min 100 (corrosion (risk_factors r) + coastal (risk_factors r)
                    + urban_wear (risk_factors r) + rural_road (risk_factors r)
                    + terrain (risk_factors r) + heat (risk_factors r) + cold (risk_factors r))
       \<and> 0 \<le> total_severity_score r \<and> total_severity_score r \<le> 100"
  using total_severity_score_capped[OF score_zip_chicago[of "\<lambda>_ _ _ _. Inr 0"]]
    score_zip_chicago[of "\<lambda>_ _ _ _. Inr 0"]
  by simp

subsection \<open>The density heuristic\<close>

text \<open>
  Claim C3. The claim gives \<open>rural_road = 15\<close> to a population density below 100.
  In \<open>calculate_density_score\<close> the branch \<open>pop_density < 100\<close> (commented
  "Very rural") comes after the branch \<open>pop_density < 500\<close> of the same chain and is
  never reached: at density 50 the function returns urban 0 and rural 10.
\<close>

theorem density_rural_below_100: "calculate_density_score 50 = (0, 10)"
  by (simp add: calculate_density_score_def)

text \<open>What the chain computes for the rural score, at every density.\<close>

lemma density_rural_actual:
  "snd (calculate_density_score p) = (if p < 500 then 10 else 0)"
  by (simp add: calculate_density_score_def)

subsection \<open>Bounds of the sub-scores\<close>

text \<open>
  Claim C9. In every record \<open>score_zip\<close> returns, each sub-score is non-negative and
  within its maximum: corrosion 30, coastal 15, urban wear 30, rural road 15, terrain 25,
  heat 20, cold 20.
\<close>

theorem sub_scores_within_maxima:
  assumes "score_zip search hav zc = Inr (Some r)"
  shows "0 \<le> corrosion (risk_factors r) \<and> corrosion (risk_factors r) \<le> 30
       \<and> 0 \<le> coastal (risk_factors r) \<and> coastal (risk_factors r) \<le> 15
       \<and> 0 \<le> urban_wear (risk_factors r) \<and> urban_wear (risk_factors r) \<le> 30
       \<and> 0 \<le> rural_road (risk_factors r) \<and> rural_road (risk_factors r) \<le> 15
       \<and> 0 \<le> terrain (risk_factors r) \<and> terrain (risk_factors r) \<le> 25
       \<and> 0 \<le> heat (risk_factors r) \<and> heat (risk_factors r) \<le> 20
       \<and> 0 \<le> cold (risk_factors r) \<and> cold (risk_factors r) \<le> 20"
  using sub_scores_bounds[OF assms] by blast

theorem sub_scores_within_maxima_witness:
  "\<exists>r. score_zip None (\<lambda>_ _ _ _. Inr 0) ''60601'' = Inr (Some r)
       \<and> corrosion (risk_factors r) = 30 \<and> corrosion (risk_factors r) \<le> 30
       \<and> urban_wear (risk_factors r) = 30 \<and> urban_wear (risk_factors r) \<le> 30
       \<and> 0 \<le> cold (risk_factors r) \<and> cold (risk_factors r) \<le> 20"
  using sub_scores_within_maxima[OF score_zip_chicago[of "\<lambda>_ _ _ _. Inr 0"]]
    score_zip_chicago[of "\<lambda>_ _ _ _. Inr 0"]
  by simp

subsection \<open>Heat and cold exclude each other\<close>

text \<open>
  Claim C10. The heat score is positive exactly below latitude 35 and the cold score
  exactly above latitude 42, so the two are never both positive: in the thermal heuristic
  at every latitude, and in the risk factors of every record \<open>score_zip\<close> returns.
\<close>

theorem thermal_scores_exclusive:
  assumes "score_zip search hav zc = Inr (Some r)"
  shows "(0 < heat (risk_factors r) \<longleftrightarrow> latitude r < 35)
       \<and> (0 < cold (risk_factors r) \<longleftrightarrow> 42 < latitude r)
       \<and> \<not> (0 < heat (risk_factors r) \<and> 0 < cold (risk_factors r))
       \<and> (0 < fst (calculate_thermal_score lat) \<longleftrightarrow> lat < 35)
       \<and> (0 < snd (calculate_thermal_score lat) \<longleftrightarrow> 42 < lat)
       \<and> \<not> (0 < fst (calculate_thermal_score lat) \<and> 0 < snd (calculate_thermal_score lat))"
proof -
  from assms obtain zd where zd: "get_zip_data search zc = Some zd"
    using score_zip_resolved by blast
  note f = score_zip_fields[OF assms zd]
  show ?thesis
    unfolding f(2) f(7) f(8) thermal_score_heat thermal_score_cold by simp
qed

theorem thermal_scores_exclusive_witness:
  "\<exists>r. score_zip None (\<lambda>_ _ _ _. Inr 0) ''60601'' = Inr (Some r)
       \<and> \<not> latitude r < 35 \<and> \<not> 42 < latitude r
       \<and> heat (risk_factors r) = 0 \<and> cold (risk_factors r) = 0"
  using thermal_scores_exclusive[OF score_zip_chicago[of "\<lambda>_ _ _ _. Inr 0"]]
    score_zip_chicago[of "\<lambda>_ _ _ _. Inr 0"]
  by simp

subsection \<open>The risk bucket\<close>

lemma Max_four: "Max {a, b, c, d} = max (max (max a b) c) (d::int)"
  by (simp add: max.assoc)

text \<open>
  Claim C2. For every \<open>RiskFactors\<close> value, \<open>determine_risk_bucket\<close> returns what the
  specification's rule returns: with the four grouped totals and their maximum, the first
  of corrosion (floor 25), terrain (floor 15), urban (floor 20), thermal (floor 15) that
  equals the maximum and meets its floor names the bucket, and \<open>general\<close> otherwise.
\<close>

theorem determine_risk_bucket_spec:
  "determine_risk_bucket f = risk_bucket_spec f"
  unfolding determine_risk_bucket_def risk_bucket_spec_def Max_four Let_def
  by (simp add: eq_commute)

text \<open>Ties between grouped totals, decided by the evaluation order.\<close>

lemma determine_risk_bucket_tie_corrosion_urban:
  "determine_risk_bucket \<lparr>corrosion = 30, coastal = 0, urban_wear = 30, rural_road = 0,
     terrain = 0, heat = 0, cold = 0\<rparr> = ''salt_belt''"
  by (simp add: determine_risk_bucket_def)

lemma determine_risk_bucket_tie_terrain_urban:
  "determine_risk_bucket \<lparr>corrosion = 0, coastal = 0, urban_wear = 25, rural_road = 0,
     terrain = 25, heat = 0, cold = 0\<rparr> = ''transmission_cooker''"
  by (simp add: determine_risk_bucket_def)

lemma determine_risk_bucket_tie_urban_thermal:
  "determine_risk_bucket \<lparr>corrosion = 0, coastal = 0, urban_wear = 25, rural_road = 0,
     terrain = 0, heat = 25, cold = 0\<rparr> = ''city_grinder''"
  by (simp add: determine_risk_bucket_def)

text \<open>
  The same rule by dominance: a bucket is returned exactly when its grouped total meets
  its floor, is at least every other grouped total, and no bucket earlier in the order
  qualifies. A tie goes to the bucket checked first.
\<close>

lemma bucket_chain:
  fixes P Q R S :: bool
  defines "b \<equiv> (if P then ''salt_belt'' else if Q then ''transmission_cooker''
                 else if R then ''city_grinder'' else if S then ''thermal_stress''
                 else ''general'')"
  shows "b = ''salt_belt'' \<longleftrightarrow> P"
    and "b = ''transmission_cooker'' \<longleftrightarrow> \<not> P \<and> Q"
    and "b = ''city_grinder'' \<longleftrightarrow> \<not> P \<and> \<not> Q \<and> R"
    and "b = ''thermal_stress'' \<longleftrightarrow> \<not> P \<and> \<not> Q \<and> \<not> R \<and> S"
    and "b = ''general'' \<longleftrightarrow> \<not> P \<and> \<not> Q \<and> \<not> R \<and> \<not> S"
  by (simp_all add: b_def)

lemma max_four_eq:
  fixes a b c d x :: int
  shows "max (max (max a b) c) d = x \<longleftrightarrow>
           (x = a \<or> x = b \<or> x = c \<or> x = d) \<and> a \<le> x \<and> b \<le> x \<and> c \<le> x \<and> d \<le> x"
  by (simp add: max_def) linarith

lemma determine_risk_bucket_cases:
  fixes f :: RiskFactors
  defines "c \<equiv> corrosion f + coastal f" and "u \<equiv> urban_wear f"
    and "t \<equiv> terrain f" and "th \<equiv> heat f + cold f"
  shows "determine_risk_bucket f = ''salt_belt''
           \<longleftrightarrow> 25 \<le> c \<and> u \<le> c \<and> t \<le> c \<and> th \<le> c"
    and "determine_risk_bucket f = ''transmission_cooker''
           \<longleftrightarrow> \<not> (25 \<le> c \<and> u \<le> c \<and> t \<le> c \<and> th \<le> c)
               \<and> 15 \<le> t \<and> c \<le> t \<and> u \<le> t \<and> th \<le> t"
    and "determine_risk_bucket f = ''city_grinder''
           \<longleftrightarrow> \<not> (25 \<le> c \<and> u \<le> c \<and> t \<le> c \<and> th \<le> c)
               \<and> \<not> (15 \<le> t \<and> c \<le> t \<and> u \<le> t \<and> th \<le> t)
               \<and> 20 \<le> u \<and> c \<le> u \<and> t \<le> u \<and> th \<le> u"
    and "determine_risk_bucket f = ''thermal_stress''
           \<longleftrightarrow> \<not> (25 \<le> c \<and> u \<le> c \<and> t \<le> c \<and> th \<le> c)
               \<and> \<not> (15 \<le> t \<and> c \<le> t \<and> u \<le> t \<and> th \<le> t)
               \<and> \<not> (20 \<le> u \<and> c \<le> u \<and> t \<le> u \<and> th \<le> u)
               \<and> 15 \<le> th \<and> c \<le> th \<and> u \<le> th \<and> t \<le> th"
proof -
  have P: "(max (max (max c u) t) th = c \<and> 25 \<le> c) = (25 \<le> c \<and> u \<le> c \<and> t \<le> c \<and> th \<le> c)"
    unfolding max_four_eq by blast
  have Q: "(max (max (max c u) t) th = t \<and> 15 \<le> t) = (15 \<le> t \<and> c \<le> t \<and> u \<le> t \<and> th \<le> t)"
    unfolding max_four_eq by blast
  have R: "(max (max (max c u) t) th = u \<and> 20 \<le> u) = (20 \<le> u \<and> c \<le> u \<and> t \<le> u \<and> th \<le> u)"
    unfolding max_four_eq by blast
  have S: "(max (max (max c u) t) th = th \<and> 15 \<le> th) = (15 \<le> th \<and> c \<le> th \<and> u \<le> th \<and> t \<le> th)"
    unfolding max_four_eq by blast
  have d: "determine_risk_bucket f =
      (if max (max (max c u) t) th = c \<and> 25 \<le> c then ''salt_belt''
       else if max (max (max c u) t) th = t \<and> 15 \<le> t then ''transmission_cooker''
       else if max (max (max c u) t) th = u \<and> 20 \<le> u then ''city_grinder''
       else if max (max (max c u) t) th = th \<and> 15 \<le> th then ''thermal_stress''
       else ''general'')"
    unfolding determine_risk_bucket_def Let_def c_def u_def t_def th_def by (rule refl)
  show "determine_risk_bucket f = ''salt_belt''
           \<longleftrightarrow> 25 \<le> c \<and> u \<le> c \<and> t \<le> c \<and> th \<le> c"
    unfolding d P Q R S by (rule bucket_chain(1))
  show "determine_risk_bucket f = ''transmission_cooker''
           \<longleftrightarrow> \<not> (25 \<le> c \<and> u \<le> c \<and> t \<le> c \<and> th \<le> c)
               \<and> 15 \<le> t \<and> c \<le> t \<and> u \<le> t \<and> th \<le> t"
    unfolding d P Q R S by (rule bucket_chain(2))
  show "determine_risk_bucket f = ''city_grinder''
           \<longleftrightarrow> \<not> (25 \<le> c \<and> u \<le> c \<and> t \<le> c \<and> th \<le> c)
               \<and> \<not> (15 \<le> t \<and> c \<le> t \<and> u \<le> t \<and> th \<le> t)
               \<and> 20 \<le> u \<and> c \<le> u \<and> t \<le> u \<and> th \<le> u"
    unfolding d P Q R S by (rule bucket_chain(3))
  show "determine_risk_bucket f = ''thermal_stress''
           \<longleftrightarrow> \<not> (25 \<le> c \<and> u \<le> c \<and> t \<le> c \<and> th \<le> c)
               \<and> \<not> (15 \<le> t \<and> c \<le> t \<and> u \<le> t \<and> th \<le> t)
               \<and> \<not> (20 \<le> u \<and> c \<le> u \<and> t \<le> u \<and> th \<le> u)
               \<and> 15 \<le> th \<and> c \<le> th \<and> u \<le> th \<and> t \<le> th"
    unfolding d P Q R S by (rule bucket_chain(4))
qed

subsection \<open>Lead priority\<close>

text \<open>Two more inputs of the mock table, both of total 27.\<close>

lemma score_zip_salt_lake_city:
  "\<exists>r. score_zip None hav ''84101'' = Inr (Some r) \<and> total_severity_score r = 27
       \<and> lead_priority r = ''cold''"
proof -
  have zd: "get_zip_data None ''84101'' =
     Some \<lparr>zd_city = ''Salt Lake City'', zd_state = ''UT'', zd_lat = 40.7608,
            zd_lon = - 111.8910, zd_pop_density = 3200\<rparr>"
    by (simp add: get_zip_data_def MOCK_ZIP_DATA_def)
  have c: "calculate_corrosion_score hav ''UT'' la lo = Inr (0, 0)" for la lo
    by (simp add: calculate_corrosion_score_def SALT_BELT_STATES_def COASTAL_STATES_def)
  obtain r where r: "score_zip None hav ''84101'' = Inr (Some r)"
    using score_zip_returns[OF zd, of hav "(0, 0)"] by (auto simp only: zip_data.simps c)
  note f = score_zip_fields[OF r zd]
  have d: "calculate_density_score 3200 = (15, 0)"
    by (simp add: calculate_density_score_def)
  have t: "calculate_terrain_score ''84101'' ''UT'' = 12"
    by (simp add: calculate_terrain_score_def MOUNTAINOUS_STATES_def get_elevation_estimate_def
        HIGH_ELEVATION_PREFIXES_def)
  have cc: "corrosion (risk_factors r) = 0" "coastal (risk_factors r) = 0"
    using f(3) c by simp_all
  have tot: "total_severity_score r = 27"
    unfolding f(9) cc f(4) f(5) f(6) f(7) f(8)
    by (simp add: d t thermal_score_heat thermal_score_cold)
  with f(10) r show ?thesis by simp
qed

lemma score_zip_dallas:
  "\<exists>r. score_zip None (\<lambda>_ _ _ _. Inr 100) ''75201'' = Inr (Some r) \<and> total_severity_score r = 27
       \<and> lead_priority r = ''cold''"
proof -
  have zd: "get_zip_data None ''75201'' =
     Some \<lparr>zd_city = ''Dallas'', zd_state = ''TX'', zd_lat = 32.7767,
            zd_lon = - 96.7970, zd_pop_density = 3500\<rparr>"
    by (simp add: get_zip_data_def MOCK_ZIP_DATA_def)
  have c: "calculate_corrosion_score (\<lambda>_ _ _ _. Inr 100) ''TX'' la lo = Inr (0, 0)" for la lo
    by (simp add: calculate_corrosion_score_def SALT_BELT_STATES_def COASTAL_STATES_def
        get_nearest_coast_distance_def COASTAL_REFERENCE_POINTS_def)
  obtain r where r: "score_zip None (\<lambda>_ _ _ _. Inr 100) ''75201'' = Inr (Some r)"
    using score_zip_returns[OF zd, of "\<lambda>_ _ _ _. Inr 100" "(0, 0)"]
    by (auto simp only: zip_data.simps c)
  note f = score_zip_fields[OF r zd]
  have d: "calculate_density_score 3500 = (15, 0)"
    by (simp add: calculate_density_score_def)
  have t: "calculate_terrain_score ''75201'' ''TX'' = 0"
    by (simp add: calculate_terrain_score_def MOUNTAINOUS_STATES_def)
  have cc: "corrosion (risk_factors r) = 0" "coastal (risk_factors r) = 0"
    using f(3) c by simp_all
  have tot: "total_severity_score r = 27"
    unfolding f(9) cc f(4) f(5) f(6) f(7) f(8)
    by (simp add: d t thermal_score_heat thermal_score_cold)
  with f(10) r show ?thesis by simp
qed

text \<open>
  Claim C5. In every record \<open>score_zip\<close> returns, the lead priority is \<open>hot\<close> exactly
  when the total is at least 60, \<open>warm\<close> exactly from 35 to 59, \<open>cold\<close> exactly below
  35; two records of equal total have the same priority, and a larger total never has a
  lower tier.
\<close>

theorem lead_priority_thresholds:
  assumes "score_zip search hav zc = Inr (Some r)" and "score_zip search' hav' zc' = Inr (Some r')"
  shows "(lead_priority r = ''hot'' \<longleftrightarrow> 60 \<le> total_severity_score r)
       \<and> (lead_priority r = ''warm'' \<longleftrightarrow> 35 \<le> total_severity_score r \<and> total_severity_score r < 60)
       \<and> (lead_priority r = ''cold'' \<longleftrightarrow> total_severity_score r < 35)
       \<and> (total_severity_score r = total_severity_score r' \<longrightarrow> lead_priority r = lead_priority r')
       \<and> (total_severity_score r \<le> total_severity_score r'
            \<longrightarrow> priority_rank (lead_priority r) \<le> priority_rank (lead_priority r'))"
proof -
  from assms(1) obtain zd where zd: "get_zip_data search zc = Some zd"
    using score_zip_resolved by blast
  from assms(2) obtain zd' where zd': "get_zip_data search' zc' = Some zd'"
    using score_zip_resolved by blast
  note p = score_zip_fields(10)[OF assms(1) zd]
  note p' = score_zip_fields(10)[OF assms(2) zd']
  show ?thesis
    unfolding p p' by (simp add: priority_rank_def)
qed

theorem lead_priority_thresholds_witness:
  "\<exists>r r' r''. score_zip None (\<lambda>_ _ _ _. Inr 100) ''75201'' = Inr (Some r)
       \<and> score_zip None (\<lambda>_ _ _ _. Inr 100) ''84101'' = Inr (Some r')
       \<and> score_zip None (\<lambda>_ _ _ _. Inr 100) ''60601'' = Inr (Some r'')
       \<and> total_severity_score r = total_severity_score r'
       \<and> lead_priority r = lead_priority r'
       \<and> total_severity_score r \<le> total_severity_score r''
       \<and> priority_rank (lead_priority r) \<le> priority_rank (lead_priority r'')
       \<and> lead_priority r = ''cold'' \<and> lead_priority r'' = ''hot''
       \<and> total_severity_score r'' = 60"
proof -
  obtain r where r: "score_zip None (\<lambda>_ _ _ _. Inr 100) ''75201'' = Inr (Some r)"
    "total_severity_score r = 27" "lead_priority r = ''cold''"
    using score_zip_dallas by blast
  obtain r' where r': "score_zip None (\<lambda>_ _ _ _. Inr 100) ''84101'' = Inr (Some r')"
    "total_severity_score r' = 27" "lead_priority r' = ''cold''"
    using score_zip_salt_lake_city[of "\<lambda>_ _ _ _. Inr 100"] by blast
  obtain r'' where r'': "score_zip None (\<lambda>_ _ _ _. Inr 100) ''60601'' = Inr (Some r'')"
    "total_severity_score r'' = 60" "lead_priority r'' = ''hot''"
    using score_zip_chicago[of "\<lambda>_ _ _ _. Inr 100"] by simp
  have eq: "total_severity_score r = total_severity_score r'"
    using r(2) r'(2) by simp
  have le: "total_severity_score r \<le> total_severity_score r''"
    using r(2) r''(2) by simp
  have "lead_priority r = lead_priority r'"
    using lead_priority_thresholds[OF r(1) r'(1)] eq by blast
  moreover have "priority_rank (lead_priority r) \<le> priority_rank (lead_priority r'')"
    using lead_priority_thresholds[OF r(1) r''(1)] le by blast
  ultimately show ?thesis using r r' r'' eq le by blast
qed

subsection \<open>The stable descending sort\<close>

lemma length_sort_reverse: "length (sort_reverse key xs) = length xs"
  by (simp add: sort_reverse_def)

lemma mset_sort_reverse: "mset (sort_reverse key xs) = mset xs"
  by (simp add: sort_reverse_def)

lemma sorted_sort_reverse:
  "sorted_wrt (\<lambda>a b. key a \<ge> key b) (sort_reverse key xs)"
proof -
  have "sorted (map (\<lambda>x. - key x) (sort_key (\<lambda>x. - key x) xs))"
    by (rule sorted_sort_key)
  then show ?thesis
    by (simp add: sort_reverse_def sorted_map)
qed

lemma sort_reverse_stable:
  "filter (\<lambda>y. key y = k) (sort_reverse key xs) = filter (\<lambda>y. key y = k) xs"
  using sort_key_stable[of "\<lambda>x. - key x" "- k" xs]
  by (simp add: sort_reverse_def)

subsection \<open>Primary and secondary risk\<close>

lemma take2_drop1: "3 \<le> length rs \<Longrightarrow> take 2 (drop 1 rs) = [rs ! 1, rs ! 2]"
proof -
  assume len: "3 \<le> length rs"
  then obtain a rs1 where 1: "rs = a # rs1" by (cases rs) auto
  with len obtain b rs2 where 2: "rs1 = b # rs2" by (cases rs1) auto
  with 1 len obtain c rs3 where 3: "rs2 = c # rs3" by (cases rs2) auto
  show ?thesis unfolding 1 2 3 by (simp add: numeral_2_eq_2)
qed

text \<open>
  Claim C7. For every \<open>RiskFactors\<close> value the six (score, label) pairs, in the fixed
  order Corrosion, Stop-and-Go Wear, Terrain Stress, Heat Stress, Cold Start Risk, Rural
  Road Wear, are sorted by score, descending and stably: the result has the same six
  pairs, scores never increase along it, and the pairs of any one score keep the order of
  the fixed list. The primary risk is the label at rank 0 when its score is positive and
  \<open>Low Risk\<close> otherwise; the secondary risks are the labels at ranks 1 and 2 whose score
  is at least 5, so at most two.
\<close>

theorem primary_risk_ranking:
  "risk_scores f =
     [(corrosion f + coastal f, ''Corrosion''), (urban_wear f, ''Stop-and-Go Wear''),
      (terrain f, ''Terrain Stress''), (heat f, ''Heat Stress''),
      (cold f, ''Cold Start Risk''), (rural_road f, ''Rural Road Wear'')]
   \<and> length (sorted_risk_scores f) = 6
   \<and> mset (sorted_risk_scores f) = mset (risk_scores f)
   \<and> sorted_wrt (\<lambda>a b. fst a \<ge> fst b) (sorted_risk_scores f)
   \<and> (\<forall>k. filter (\<lambda>p. fst p = k) (sorted_risk_scores f) = filter (\<lambda>p. fst p = k) (risk_scores f))
   \<and> fst (get_primary_risk f) =
       (if 0 < fst (sorted_risk_scores f ! 0) then snd (sorted_risk_scores f ! 0) else ''Low Risk'')
   \<and> snd (get_primary_risk f) =
       map snd (filter (\<lambda>p. 5 \<le> fst p) [sorted_risk_scores f ! 1, sorted_risk_scores f ! 2])
   \<and> length (snd (get_primary_risk f)) \<le> 2"
proof -
  have len: "length (sorted_risk_scores f) = 6"
    by (simp add: sorted_risk_scores_def length_sort_reverse risk_scores_def)
  have perm: "mset (sorted_risk_scores f) = mset (risk_scores f)"
    unfolding sorted_risk_scores_def by (rule mset_sort_reverse)
  have srt: "sorted_wrt (\<lambda>a b. fst a \<ge> fst b) (sorted_risk_scores f)"
    unfolding sorted_risk_scores_def by (rule sorted_sort_reverse)
  have stab: "\<forall>k. filter (\<lambda>p. fst p = k) (sorted_risk_scores f) = filter (\<lambda>p. fst p = k) (risk_scores f)"
    unfolding sorted_risk_scores_def by (simp add: sort_reverse_stable)
  have prim: "fst (get_primary_risk f) =
       (if 0 < fst (sorted_risk_scores f ! 0) then snd (sorted_risk_scores f ! 0) else ''Low Risk'')"
    by (simp add: get_primary_risk_def Let_def)
  have td: "take 2 (drop 1 (sorted_risk_scores f)) = [sorted_risk_scores f ! 1, sorted_risk_scores f ! 2]"
    using len by (intro take2_drop1) simp
  have sec: "snd (get_primary_risk f) =
       map snd (filter (\<lambda>p. 5 \<le> fst p) [sorted_risk_scores f ! 1, sorted_risk_scores f ! 2])"
    unfolding td[symmetric] by (simp add: get_primary_risk_def Let_def)
  have "length (snd (get_primary_risk f)) \<le> 2"
    unfolding sec by simp
  with len perm srt stab prim sec show ?thesis
    by (simp only: risk_scores_def simp_thms)
qed

theorem primary_risk_ranking_witness:
  "sorted_risk_scores \<lparr>corrosion = 30, coastal = 0, urban_wear = 15, rural_road = 0,
      terrain = 0, heat = 0, cold = 12\<rparr>
     = [(30, ''Corrosion''), (15, ''Stop-and-Go Wear''), (12, ''Cold Start Risk''),
        (0, ''Terrain Stress''), (0, ''Heat Stress''), (0, ''Rural Road Wear'')]
   \<and> get_primary_risk \<lparr>corrosion = 30, coastal = 0, urban_wear = 15, rural_road = 0,
      terrain = 0, heat = 0, cold = 12\<rparr> = (''Corrosion'', [''Stop-and-Go Wear'', ''Cold Start Risk''])"
proof -
  let ?f = "\<lparr>corrosion = 30, coastal = 0, urban_wear = 15, rural_road = 0,
      terrain = 0, heat = 0, cold = 12\<rparr>"
  have s: "sorted_risk_scores ?f
     = [(30, ''Corrosion''), (15, ''Stop-and-Go Wear''), (12, ''Cold Start Risk''),
        (0, ''Terrain Stress''), (0, ''Heat Stress''), (0, ''Rural Road Wear'')]"
    by (simp add: sorted_risk_scores_def risk_scores_def sort_reverse_def)
  have "fst (get_primary_risk ?f) = ''Corrosion''"
    using primary_risk_ranking[of ?f] unfolding s by simp
  moreover have "snd (get_primary_risk ?f) = [''Stop-and-Go Wear'', ''Cold Start Risk'']"
    using primary_risk_ranking[of ?f] unfolding s by simp
  ultimately show ?thesis using s by (simp add: prod_eq_iff)
qed

text \<open>A tie of the two largest scores, and the all-zero factors.\<close>

lemma get_primary_risk_tie:
  "get_primary_risk \<lparr>corrosion = 30, coastal = 0, urban_wear = 30, rural_road = 0,
     terrain = 0, heat = 0, cold = 0\<rparr> = (''Corrosion'', [''Stop-and-Go Wear''])"
  by (simp add: get_primary_risk_def sorted_risk_scores_def risk_scores_def sort_reverse_def)

lemma get_primary_risk_low:
  "get_primary_risk \<lparr>corrosion = 0, coastal = 0, urban_wear = 0, rural_road = 0,
     terrain = 0, heat = 0, cold = 0\<rparr> = (''Low Risk'', [])"
  by (simp add: get_primary_risk_def sorted_risk_scores_def risk_scores_def sort_reverse_def)

subsection \<open>Upsell recommendations\<close>

lemma dedupe_first_filter:
  "filter P (dedupe_first xs) = dedupe_first (filter P xs)"
proof (induction xs)
  case Nil
  show ?case by simp
next
  case (Cons x xs)
  show ?case
  proof (cases "P x")
    case True
    have "filter P (filter (\<lambda>y. y \<noteq> x) (dedupe_first xs))
            = filter (\<lambda>y. y \<noteq> x) (filter P (dedupe_first xs))"
      by (simp add: conj_commute)
    with True Cons show ?thesis by simp
  next
    case False
    have "filter P (filter (\<lambda>y. y \<noteq> x) (dedupe_first xs)) = filter P (dedupe_first xs)"
      using False by (auto intro: filter_cong)
    with False Cons show ?thesis by simp
  qed
qed

lemma set_dedupe_first: "set (dedupe_first xs) = set xs"
  by (induction xs) auto

lemma distinct_dedupe_first: "distinct (dedupe_first xs)"
  by (induction xs) (auto simp: set_dedupe_first)

lemma dedupe_loop_eq:
  "dedupe_loop xs seen unique = unique @ dedupe_first (filter (\<lambda>x. x \<notin> seen) xs)"
proof (induction xs arbitrary: seen unique)
  case Nil
  show ?case by simp
next
  case (Cons item rest)
  show ?case
  proof (cases "item \<in> seen")
    case True
    with Cons show ?thesis by simp
  next
    case False
    have "filter (\<lambda>x. x \<notin> insert item seen) rest
            = filter (\<lambda>y. y \<noteq> item) (filter (\<lambda>x. x \<notin> seen) rest)"
      by (auto intro: filter_cong)
    with False Cons show ?thesis
      by (simp add: dedupe_first_filter)
  qed
qed

lemma extend_if_append:
  "extend_if c items upsells = upsells @ (if c then items else [])"
  by (simp add: extend_if_def)

lemma triggered_Cons:
  "concat (map snd (filter (\<lambda>rule. fst rule f) ((c, items) # rules)))
     = (if c f then items else []) @ concat (map snd (filter (\<lambda>rule. fst rule f) rules))"
  by simp

lemma upsells_eq_triggered_items:
  "extend_if (cold f \<ge> 12) [''Block Heater'', ''Battery Replacement'', ''Alternator Test'']
    (extend_if (heat f \<ge> 12) [''Battery Load Test'', ''AC System Check'', ''Rubber Bushing Inspection'']
      (extend_if (terrain f \<ge> 15) [''Transmission Flush'', ''Coolant Check'', ''Brake Fluid Flush'']
        (extend_if (rural_road f \<ge> 10) [''Suspension Inspection'', ''Alignment Check'', ''Skid Plate'']
          (extend_if (urban_wear f \<ge> 20) [''Brake Rotors'', ''Starter System Check'', ''Door Hinge Lube'']
            (extend_if (coastal f \<ge> 10) [''Rust Proofing'', ''Marine Grade Lubricants'']
              (extend_if (corrosion f \<ge> 25) [''Undercoating'', ''Brake Line Inspection'', ''Caliper Check'']
                []))))))
   = triggered_items f"
  unfolding triggered_items_def upsell_rules_def triggered_Cons extend_if_append
  by (simp only: append_assoc append_Nil append_Nil2 filter.simps list.map concat.simps)

text \<open>
  Claim C6. For every \<open>RiskFactors\<close> value the recommended upsells are the items of
  the triggered rules, concatenated in rule order, with duplicates removed at their first
  occurrence, cut to the first six; the list has at most six entries and no entry twice.
\<close>

theorem recommended_upsells_spec:
  "get_recommended_upsells f bucket = take 6 (dedupe_first (triggered_items f))
   \<and> length (get_recommended_upsells f bucket) \<le> 6
   \<and> distinct (get_recommended_upsells f bucket)"
proof -
  have eq: "get_recommended_upsells f bucket = take 6 (dedupe_first (triggered_items f))"
    unfolding get_recommended_upsells_def Let_def upsells_eq_triggered_items dedupe_loop_eq
    by simp
  show ?thesis
    unfolding eq by (simp add: distinct_dedupe_first)
qed

theorem recommended_upsells_spec_witness:
  "get_recommended_upsells \<lparr>corrosion = 30, coastal = 15, urban_wear = 30, rural_road = 0,
      terrain = 0, heat = 0, cold = 12\<rparr> ''salt_belt''
     = [''Undercoating'', ''Brake Line Inspection'', ''Caliper Check'',
        ''Rust Proofing'', ''Marine Grade Lubricants'', ''Brake Rotors'']"
  using recommended_upsells_spec[of "\<lparr>corrosion = 30, coastal = 15, urban_wear = 30,
      rural_road = 0, terrain = 0, heat = 0, cold = 12\<rparr>" "''salt_belt''"]
  by (simp add: triggered_items_def upsell_rules_def)

subsection \<open>Scoring a batch\<close>

text \<open>
  The loop either ends with the exception, when scoring some code of the batch raises, or
  returns the records of the codes that resolve, in input order.
\<close>

lemma score_loop_eq:
  "score_loop search hav acc zs =
     (if \<exists>z \<in> set zs. score_zip search hav (strip z) = Inl ValueError then Inl ValueError
      else Inr (acc @ List.map_filter (scored search hav) zs))"
proof (induction zs arbitrary: acc)
  case Nil
  show ?case by simp
next
  case (Cons zc rest)
  show ?case
  proof (cases "score_zip search hav (strip zc)")
    case (Inl e)
    then have "score_zip search hav (strip zc) = Inl ValueError" by (cases e) simp
    then show ?thesis by simp
  next
    case (Inr res)
    then show ?thesis using Cons by (cases res) simp_all
  qed
qed

lemma score_multiple_eq:
  "score_multiple search hav zs =
     (if \<exists>z \<in> set zs. score_zip search hav (strip z) = Inl ValueError then Inl ValueError
      else Inr (sort_reverse total_severity_score (List.map_filter (scored search hav) zs)))"
  by (simp add: score_multiple_def score_loop_eq)

lemma score_multiple_Inr:
  assumes "score_multiple search hav zs = Inr out"
  shows "out = sort_reverse total_severity_score (List.map_filter (scored search hav) zs)"
    and "\<forall>z \<in> set zs. score_zip search hav (strip z) \<noteq> Inl ValueError"
  using assms by (auto simp: score_multiple_eq split: if_splits)






text \<open>
  Claim C4. For every list of zip codes for which \<open>score_multiple\<close> returns, its output
  is sorted by \<open>total_severity_score\<close>, never increasing, and the records of any one total
  appear in the order in which their zip codes stand in the input.
\<close>

theorem score_multiple_sorted_stable:
  assumes "score_multiple search hav zs = Inr out"
  shows "sorted_wrt (\<lambda>a b. total_severity_score a \<ge> total_severity_score b) out
   \<and> (\<forall>k. filter (\<lambda>r. total_severity_score r = k) out
          = filter (\<lambda>r. total_severity_score r = k)
              (List.map_filter (scored search hav) zs))"
  unfolding score_multiple_Inr(1)[OF assms]
  by (simp add: sorted_sort_reverse sort_reverse_stable)

text \<open>
  A batch with a tie (Dallas and Salt Lake City, both 27), an unknown code and white space
  around two codes; every distance is 100 miles.
\<close>

lemma score_multiple_example:
  "\<exists>out. score_multiple None (\<lambda>_ _ _ _. Inr 100) [''75201'', '' 84101'', ''00000'', ''60601 ''] = Inr out
     \<and> map zip_code out = [''60601'', ''75201'', ''84101'']
     \<and> map total_severity_score out = [60, 27, 27]"
proof -
  obtain r where r: "score_zip None (\<lambda>_ _ _ _. Inr 100) ''75201'' = Inr (Some r)"
    "total_severity_score r = 27"
    using score_zip_dallas by blast
  obtain r' where r': "score_zip None (\<lambda>_ _ _ _. Inr 100) ''84101'' = Inr (Some r')"
    "total_severity_score r' = 27"
    using score_zip_salt_lake_city[of "\<lambda>_ _ _ _. Inr 100"] by blast
  obtain zd where zd: "get_zip_data None ''75201'' = Some zd"
    using score_zip_resolved[OF r(1)] by blast
  obtain zd' where zd': "get_zip_data None ''84101'' = Some zd'"
    using score_zip_resolved[OF r'(1)] by blast
  have z: "zip_code r = ''75201''" by (rule score_zip_fields(1)[OF r(1) zd])
  have z': "zip_code r' = ''84101''" by (rule score_zip_fields(1)[OF r'(1) zd'])
  have n: "score_zip None (\<lambda>_ _ _ _. Inr 100) ''00000'' = Inr None"
    by (simp add: score_zip_None_iff get_zip_data_def MOCK_ZIP_DATA_def)
  have s: "strip ''75201'' = ''75201''" "strip '' 84101'' = ''84101''"
    "strip ''00000'' = ''00000''" "strip ''60601 '' = ''60601''"
    by (simp_all add: strip_def py_isspace_def)
  show ?thesis
    by (simp add: score_multiple_eq s r r' n z z' score_zip_chicago sort_reverse_def)
qed

theorem score_multiple_sorted_stable_witness:
  "\<exists>out. score_multiple None (\<lambda>_ _ _ _. Inr 100) [''75201'', '' 84101'', ''00000'', ''60601 ''] = Inr out
     \<and> map zip_code out = [''60601'', ''75201'', ''84101'']
     \<and> sorted_wrt (\<lambda>a b. total_severity_score a \<ge> total_severity_score b) out
     \<and> map zip_code (filter (\<lambda>r. total_severity_score r = 27) out) = [''75201'', ''84101'']"
proof -
  from score_multiple_example obtain out where ex:
    "score_multiple None (\<lambda>_ _ _ _. Inr 100) [''75201'', '' 84101'', ''00000'', ''60601 ''] = Inr out
     \<and> map zip_code out = [''60601'', ''75201'', ''84101'']
     \<and> map total_severity_score out = [60, 27, 27]" ..
  note out = ex[THEN conjunct1] ex[THEN conjunct2, THEN conjunct1] ex[THEN conjunct2, THEN conjunct2]
  have srt: "sorted_wrt (\<lambda>a b. total_severity_score a \<ge> total_severity_score b) out"
    using score_multiple_sorted_stable[OF out(1)] by blast
  from out(2) out(3) obtain a b c where abc: "out = [a, b, c]"
    by (auto simp: map_eq_Cons_conv)
  have flt: "map zip_code (filter (\<lambda>r. total_severity_score r = 27) out) = [''75201'', ''84101'']"
    using out(2) out(3) unfolding abc by simp
  show ?thesis
    by (rule exI[of _ out]) (simp only: out(1) out(2) srt flt simp_thms)
qed

subsection \<open>Codes that do not resolve\<close>

text \<open>
  A batch in which scoring a code raises: a search engine that places every code in
  California, and a \<open>haversine_distance\<close> that raises. The exception is the outcome of
  \<open>score_zip\<close> and of \<open>score_multiple\<close>.
\<close>

lemma score_multiple_raises:
  fixes engine :: search_engine
  defines "engine \<equiv> (\<lambda>zc. Returns (Some \<lparr>sz_zipcode = Some zc, sz_major_city = None,
      sz_post_office_city = None, sz_state = Some ''CA'', sz_lat = Some (- 34.05),
      sz_lng = Some 61.75, sz_population_density = None\<rparr>))"
  shows "score_zip (Some engine) (\<lambda>_ _ _ _. Inl ValueError) ''90001'' = Inl ValueError"
    and "score_multiple (Some engine) (\<lambda>_ _ _ _. Inl ValueError) [''90001''] = Inl ValueError"
proof -
  have zd: "get_zip_data (Some engine) ''90001'' =
      Some \<lparr>zd_city = ''Unknown'', zd_state = ''CA'', zd_lat = - 34.05, zd_lon = 61.75,
             zd_pop_density = 0\<rparr>"
    by (simp add: get_zip_data_def engine_def or_str_def or_num_def)
  have c: "calculate_corrosion_score (\<lambda>_ _ _ _. Inl ValueError) ''CA'' la lo = Inl ValueError" for la lo
    by (simp add: calculate_corrosion_score_def COASTAL_STATES_def
        get_nearest_coast_distance_def COASTAL_REFERENCE_POINTS_def)
  show 1: "score_zip (Some engine) (\<lambda>_ _ _ _. Inl ValueError) ''90001'' = Inl ValueError"
    by (simp add: score_zip_def zd c)
  have s: "strip ''90001'' = ''90001''"
    by (simp add: strip_def py_isspace_def)
  show "score_multiple (Some engine) (\<lambda>_ _ _ _. Inl ValueError) [''90001''] = Inl ValueError"
    by (simp add: score_multiple_eq s 1)
qed



end
